theory Spec2Isabelle
  imports Main "HOL-Library.Word" "HOL-Library.Sublist"
begin

section \<open>Shared vocabulary\<close>

text \<open>
  A Go byte slice is a list of 8-bit words. Go's \<open>int64\<close>, \<open>uint64\<close>, \<open>int32\<close> and
  \<open>uint32\<close> are words of that width; a conversion between the signed and the unsigned
  type of one width keeps the bits, so \<open>int64(root.TreeSize)\<close> and
  \<open>codes.Code(...)\<close> of an \<open>int32\<close> are the same word.
\<close>

type_synonym bytes = "8 word list"
type_synonym int64 = "64 word"
type_synonym uint64 = "64 word"
type_synonym int32 = "32 word"
type_synonym codes_Code = "32 word"

text \<open>
  A Go function either returns, panics (a nil pointer dereference) or ends the process
  (\<open>os.Exit\<close>). A Go value of type \<open>error\<close> is a value of the type variable \<open>'e\<close>; the
  nil error is \<open>None\<close>. A returned pair \<open>(v, err)\<close> is the pair of \<open>v\<close> and an
  \<open>'e option\<close>, as in the source, where both components are always present.
\<close>

datatype 'a outcome = Return 'a | Panic | Exit

text \<open>
  \<open>context.Background()\<close> carries no deadline; \<open>context.WithTimeout(parent, d)\<close> carries
  the deadline \<open>d\<close> nanoseconds after its creation.
\<close>

datatype Context = Background | WithTimeout Context int

definition Second :: int where
  "Second = 1000000000"

definition Hour :: int where
  "Hour = 3600 * Second"

fun has_deadline :: "Context \<Rightarrow> bool" where
  "has_deadline Background = False"
| "has_deadline (WithTimeout parent d) = True"

section \<open>Admission policy (IsFileTypeAllowed)\<close>

text \<open>
  \<open>strings.Contains(s, substr)\<close>: some suffix of \<open>s\<close> starts with \<open>substr\<close>.
\<close>

fun Contains :: "string \<Rightarrow> string \<Rightarrow> bool" where
  "Contains [] substr = (substr = [])"
| "Contains (c # s) substr = (prefix substr (c # s) \<or> Contains s substr)"

text \<open>
  \<open>http.DetectContentType\<close> (the content sniffer of the Go standard library) and
  \<open>viper.GetBool\<close> (the lookup in the process-wide configuration) are parameters.
\<close>

definition IsFileTypeAllowed ::
  "(bytes \<Rightarrow> string) \<Rightarrow> (string \<Rightarrow> bool) \<Rightarrow> bytes \<Rightarrow> bool \<times> 'e option" where
  "IsFileTypeAllowed DetectContentType GetBool byteLeaf =
     (let contentType = DetectContentType byteLeaf in
      if GetBool ''rekor_server.enforce_text_only'' = True then
        (if \<not> Contains contentType ''text/plain'' then (False, None) else (True, None))
      else (True, None))"

section \<open>Messages of the log service\<close>

text \<open>
  Requests are only built by the client, so they are constructors with the fields in
  the order given; responses are read field by field, so they are records. A pointer
  field that may be nil is an \<open>option\<close>. Fields of the wire messages that this client
  neither sets nor reads are left out: they keep their zero value.
\<close>

datatype GetLatestSignedLogRootRequest =
  GetLatestSignedLogRootRequest int64 \<comment> \<open>LogId\<close>

datatype GetInclusionProofByHashRequest =
  GetInclusionProofByHashRequest int64 bytes int64 \<comment> \<open>LogId, LeafHash, TreeSize\<close>

datatype LogLeaf =
  LogLeaf bytes \<comment> \<open>LeafValue\<close>

datatype QueueLeafRequest =
  QueueLeafRequest int64 LogLeaf \<comment> \<open>LogId, Leaf\<close>

datatype GetLeavesByHashRequest =
  GetLeavesByHashRequest int64 "bytes list" \<comment> \<open>LogId, LeafHash\<close>

record SignedLogRoot =
  LogRoot :: bytes

record GetLatestSignedLogRootResponse =
  SignedLogRoot :: "SignedLogRoot option"

record LogRootV1 =
  TreeSize :: uint64
  RootHash :: bytes
  TimestampNanos :: uint64
  Revision :: uint64
  Metadata :: bytes

record Proof =
  LeafIndex :: int64
  Hashes :: "bytes list"

record GetInclusionProofByHashResponse =
  Proof :: "Proof list"

record Status =
  Code :: int32
  Message :: string

record QueuedLogLeaf =
  Leaf :: "LogLeaf option"
  Status :: "Status option"

record QueueLeafResponse =
  QueuedLeaf :: "QueuedLogLeaf option"

record GetLeavesByHashResponse =
  Leaves :: "LogLeaf list"

datatype TreeType =
  TreeType_UNKNOWN_TREE_TYPE | TreeType_LOG | TreeType_PREORDERED_LOG | TreeType_MAP

datatype TreeState =
  TreeState_UNKNOWN_TREE_STATE | TreeState_ACTIVE | TreeState_FROZEN | TreeState_DRAINING

datatype HashStrategy =
  HashStrategy_UNKNOWN_HASH_STRATEGY | HashStrategy_RFC6962_SHA256
  | HashStrategy_TEST_MAP_HASHER | HashStrategy_OBJECT_RFC6962_SHA256
  | HashStrategy_CONIKS_SHA512_256 | HashStrategy_CONIKS_SHA256

datatype HashAlgorithm = DigitallySigned_NONE | DigitallySigned_SHA256

datatype SignatureAlgorithm =
  DigitallySigned_ANONYMOUS | DigitallySigned_RSA | DigitallySigned_ECDSA

record Tree =
  TreeId :: int64
  TreeType :: TreeType
  HashStrategy :: HashStrategy
  HashAlgorithm :: HashAlgorithm
  SignatureAlgorithm :: SignatureAlgorithm
  TreeState :: TreeState
  MaxRootDuration :: "int option"

datatype Specification = Specification_EcdsaParams

datatype CreateTreeRequest =
  CreateTreeRequest Tree Specification \<comment> \<open>Tree, KeySpec\<close>

record ListTreesResponse =
  Tree :: "Tree list"

text \<open>The nil-safe getters generated for the wire messages.\<close>

definition GetStatus :: "QueuedLogLeaf option \<Rightarrow> Status option" where
  "GetStatus m = (case m of None \<Rightarrow> None | Some q \<Rightarrow> Status q)"

definition GetCode :: "Status option \<Rightarrow> int32" where
  "GetCode m = (case m of None \<Rightarrow> 0 | Some st \<Rightarrow> Code st)"

definition GetHashes :: "Proof \<Rightarrow> bytes list" where
  "GetHashes p = Hashes p"

definition codes_OK :: codes_Code where
  "codes_OK = 0"

definition codes_AlreadyExists :: codes_Code where
  "codes_AlreadyExists = 6"

definition codes_Unavailable :: codes_Code where
  "codes_Unavailable = 14"

section \<open>The log service and the calls issued to it\<close>

text \<open>
  Every remote call is recorded, with the context and the request it was issued with,
  in the order of issue.
\<close>

datatype rpc =
    GetLatestSignedLogRoot_rpc Context GetLatestSignedLogRootRequest
  | GetInclusionProofByHash_rpc Context GetInclusionProofByHashRequest
  | QueueLeaf_rpc Context QueueLeafRequest
  | GetLeavesByHash_rpc Context GetLeavesByHashRequest
  | ListTrees_rpc Context
  | CreateTree_rpc Context CreateTreeRequest
  | InitLog_rpc Context "Tree option"
  | InitMap_rpc Context "Tree option"

fun rpc_context :: "rpc \<Rightarrow> Context" where
  "rpc_context (GetLatestSignedLogRoot_rpc ctx rq) = ctx"
| "rpc_context (GetInclusionProofByHash_rpc ctx rq) = ctx"
| "rpc_context (QueueLeaf_rpc ctx rq) = ctx"
| "rpc_context (GetLeavesByHash_rpc ctx rq) = ctx"
| "rpc_context (ListTrees_rpc ctx) = ctx"
| "rpc_context (CreateTree_rpc ctx rq) = ctx"
| "rpc_context (InitLog_rpc ctx t) = ctx"
| "rpc_context (InitMap_rpc ctx t) = ctx"

text \<open>
  The state of the world: the state \<open>'w\<close> of the log service and the calls issued so
  far. A stub of the service answers a call from the service state with a response
  pointer, an error, and the next service state.
\<close>

record 'w world =
  service :: 'w
  issued :: "rpc list"

definition invoke :: "rpc \<Rightarrow> ('w \<Rightarrow> 'r \<times> 'w) \<Rightarrow> 'w world \<Rightarrow> 'r \<times> 'w world" where
  "invoke c stub w =
     (case stub (service w) of
        (r, sv) \<Rightarrow> (r, w\<lparr>service := sv, issued := issued w @ [c]\<rparr>))"

record ('e, 'w) TrillianLogClient =
  GetLatestSignedLogRoot ::
    "Context \<Rightarrow> GetLatestSignedLogRootRequest \<Rightarrow> 'w
       \<Rightarrow> (GetLatestSignedLogRootResponse option \<times> 'e option) \<times> 'w"
  GetInclusionProofByHash ::
    "Context \<Rightarrow> GetInclusionProofByHashRequest \<Rightarrow> 'w
       \<Rightarrow> (GetInclusionProofByHashResponse option \<times> 'e option) \<times> 'w"
  QueueLeaf ::
    "Context \<Rightarrow> QueueLeafRequest \<Rightarrow> 'w \<Rightarrow> (QueueLeafResponse option \<times> 'e option) \<times> 'w"
  GetLeavesByHash ::
    "Context \<Rightarrow> GetLeavesByHashRequest \<Rightarrow> 'w
       \<Rightarrow> (GetLeavesByHashResponse option \<times> 'e option) \<times> 'w"

record ('e, 'w) TrillianAdminClient =
  ListTrees :: "Context \<Rightarrow> 'w \<Rightarrow> (ListTreesResponse option \<times> 'e option) \<times> 'w"
  CreateTree :: "Context \<Rightarrow> CreateTreeRequest \<Rightarrow> 'w \<Rightarrow> (Tree option \<times> 'e option) \<times> 'w"

text \<open>
  The functions of the libraries the client calls (the Merkle hasher and verifier, the
  decoder of the log root, the status code of an error, the log and map initialisers)
  are parameters, collected in one record.
\<close>

record ('e, 'w, 'm) extern =
  HashLeaf :: "bytes \<Rightarrow> bytes"
  VerifyInclusionProof :: "int64 \<Rightarrow> int64 \<Rightarrow> bytes list \<Rightarrow> bytes \<Rightarrow> bytes \<Rightarrow> 'e option"
  UnmarshalBinary :: "bytes \<Rightarrow> 'e + LogRootV1"
  status_Code :: "'e option \<Rightarrow> codes_Code"
  InitLog :: "Context \<Rightarrow> Tree option \<Rightarrow> ('e, 'w) TrillianLogClient \<Rightarrow> 'w \<Rightarrow> 'e option \<times> 'w"
  InitMap :: "Context \<Rightarrow> Tree option \<Rightarrow> 'm \<Rightarrow> 'w \<Rightarrow> 'e option \<times> 'w"

section \<open>The client (trillian_client.go)\<close>

text \<open>
  Of the four fields of \<open>trillianclient\<close>, \<open>serverInstance\<close> sets \<open>client\<close> and \<open>logID\<close>;
  \<open>lc\<close> and \<open>ctx\<close> are never read.
\<close>

record ('e, 'w) trillianclient =
  client :: "('e, 'w) TrillianLogClient"
  logID :: int64

record Response =
  status :: codes_Code
  getLeafResult :: "GetLeavesByHashResponse option"
  getProofResult :: "GetInclusionProofByHashResponse option"

definition serverInstance :: "('e, 'w) TrillianLogClient \<Rightarrow> int64 \<Rightarrow> ('e, 'w) trillianclient" where
  "serverInstance c tLogID = \<lparr>client = c, logID = tLogID\<rparr>"

text \<open>The zero values \<open>types.LogRootV1{}\<close> and \<open>Response{}\<close>.\<close>

definition LogRootV1_zero :: LogRootV1 where
  "LogRootV1_zero =
     \<lparr>TreeSize = 0, RootHash = [], TimestampNanos = 0, Revision = 0, Metadata = []\<rparr>"

definition Response_zero :: Response where
  "Response_zero = \<lparr>status = 0, getLeafResult = None, getProofResult = None\<rparr>"

definition root ::
  "('e, 'w, 'm) extern \<Rightarrow> ('e, 'w) trillianclient \<Rightarrow> 'w world
     \<Rightarrow> (LogRootV1 \<times> 'e option) outcome \<times> 'w world" where
  "root ext s w =
     (let rqst = GetLatestSignedLogRootRequest (logID s) in
      case invoke (GetLatestSignedLogRoot_rpc Background rqst)
             (GetLatestSignedLogRoot (client s) Background rqst) w of
        ((resp, err), w1) \<Rightarrow>
          (case err of
             Some e \<Rightarrow> (Return (LogRootV1_zero, Some e), w1)
           | None \<Rightarrow>
               (case resp of
                  None \<Rightarrow> (Panic, w1)
                | Some r \<Rightarrow>
                    (case SignedLogRoot r of
                       None \<Rightarrow> (Panic, w1)
                     | Some slr \<Rightarrow>
                         (case UnmarshalBinary ext (LogRoot slr) of
                            Inl e \<Rightarrow> (Return (LogRootV1_zero, Some e), w1)
                          | Inr rt \<Rightarrow> (Return (rt, None), w1))))))"

text \<open>
  The loop of \<open>getProof\<close> over the returned proofs: the error of the first proof that
  fails verification, or \<open>None\<close> when every proof verifies. The log lines written for
  each hash are diagnostics and are left out.
\<close>

fun verify_proofs ::
  "('e, 'w, 'm) extern \<Rightarrow> LogRootV1 \<Rightarrow> bytes \<Rightarrow> Proof list \<Rightarrow> 'e option" where
  "verify_proofs ext rt leafHash [] = None"
| "verify_proofs ext rt leafHash (p # rest) =
     (let hashes = GetHashes p in
      case VerifyInclusionProof ext (LeafIndex p) (TreeSize rt) hashes (RootHash rt) leafHash of
        Some e \<Rightarrow> Some e
      | None \<Rightarrow> verify_proofs ext rt leafHash rest)"

definition getProof ::
  "('e, 'w, 'm) extern \<Rightarrow> ('e, 'w) trillianclient \<Rightarrow> bytes \<Rightarrow> int64 \<Rightarrow> 'w world
     \<Rightarrow> (Response \<times> 'e option) outcome \<times> 'w world" where
  "getProof ext s byteValue tLogID w =
     (let ctx = WithTimeout Background (20 * Second) in
      case root ext s w of
        (Panic, w1) \<Rightarrow> (Panic, w1)
      | (Exit, w1) \<Rightarrow> (Exit, w1)
      | (Return (rt, Some e), w1) \<Rightarrow> (Return (Response_zero, Some e), w1)
      | (Return (rt, None), w1) \<Rightarrow>
          (let leafHash = HashLeaf ext byteValue;
               rqst = GetInclusionProofByHashRequest tLogID leafHash (TreeSize rt) in
           case invoke (GetInclusionProofByHash_rpc ctx rqst)
                  (GetInclusionProofByHash (client s) ctx rqst) w1 of
             ((resp, err), w2) \<Rightarrow>
               (case (case resp of None \<Rightarrow> None
                      | Some r \<Rightarrow> verify_proofs ext rt leafHash (Proof r)) of
                  Some e \<Rightarrow> (Return (Response_zero, Some e), w2)
                | None \<Rightarrow>
                    (Return (\<lparr>status = status_Code ext err, getLeafResult = None,
                              getProofResult = resp\<rparr>, None), w2))))"

text \<open>
  \<open>addLeaf\<close> prints a non-nil error and goes on; \<open>resp.QueuedLeaf\<close> reads a field through
  the pointer \<open>resp\<close>, which panics when \<open>resp\<close> is nil.
\<close>

definition addLeaf ::
  "('e, 'w) trillianclient \<Rightarrow> bytes \<Rightarrow> int64 \<Rightarrow> 'w world
     \<Rightarrow> (Response \<times> 'e option) outcome \<times> 'w world" where
  "addLeaf s byteValue tLogID w =
     (let leaf = LogLeaf byteValue;
          rqst = QueueLeafRequest tLogID leaf in
      case invoke (QueueLeaf_rpc Background rqst) (QueueLeaf (client s) Background rqst) w of
        ((resp, err), w1) \<Rightarrow>
          (case resp of
             None \<Rightarrow> (Panic, w1)
           | Some r \<Rightarrow>
               (let resultCode = GetCode (GetStatus (QueuedLeaf r)) in
                (Return (\<lparr>status = resultCode, getLeafResult = None,
                          getProofResult = None\<rparr>, None), w1))))"

text \<open>
  Modelled from the spec: \<open>logging.Logger.Fatal\<close>, whose package is not among the
  sources. The spec describes the call as an unrecoverable abort that terminates the
  process: the function that calls it does not return.
\<close>

definition Logger_Fatal :: "'e \<Rightarrow> 'w world \<Rightarrow> 'a outcome \<times> 'w world" where
  "Logger_Fatal e w = (Exit, w)"

text \<open>
  \<open>getLeaf\<close> calls \<open>logging.Logger.Fatal\<close> when the lookup returns an error, and builds
  its \<open>Response\<close> otherwise.
\<close>

definition getLeaf ::
  "('e, 'w, 'm) extern \<Rightarrow> ('e, 'w) trillianclient \<Rightarrow> bytes \<Rightarrow> int64 \<Rightarrow> 'w world
     \<Rightarrow> (Response \<times> 'e option) outcome \<times> 'w world" where
  "getLeaf ext s byteValue tlog_id w =
     (let leafHash = HashLeaf ext byteValue;
          rqst = GetLeavesByHashRequest tlog_id [leafHash] in
      case invoke (GetLeavesByHash_rpc Background rqst)
             (GetLeavesByHash (client s) Background rqst) w of
        ((resp, err), w1) \<Rightarrow>
          (case err of
             Some e \<Rightarrow> Logger_Fatal e w1
           | None \<Rightarrow>
               (Return (\<lparr>status = status_Code ext err, getLeafResult = resp,
                         getProofResult = None\<rparr>, None), w1)))"

text \<open>
  The scan of \<open>createAndInitTree\<close> and \<open>createAndInitMap\<close> over the listed trees: the
  first tree of the wanted type, if any.
\<close>

fun first_of_type :: "TreeType \<Rightarrow> Tree list \<Rightarrow> Tree option" where
  "first_of_type k [] = None"
| "first_of_type k (t # ts) = (if TreeType t = k then Some t else first_of_type k ts)"

definition createAndInitTree ::
  "('e, 'w, 'm) extern \<Rightarrow> Context \<Rightarrow> ('e, 'w) TrillianAdminClient
     \<Rightarrow> ('e, 'w) TrillianLogClient \<Rightarrow> 'w world
     \<Rightarrow> (Tree option \<times> 'e option) outcome \<times> 'w world" where
  "createAndInitTree ext ctx adminClient logClient w =
     (case invoke (ListTrees_rpc ctx) (ListTrees adminClient ctx) w of
        ((trees, err), w1) \<Rightarrow>
          (case err of
             Some e \<Rightarrow> (Return (None, Some e), w1)
           | None \<Rightarrow>
               (case trees of
                  None \<Rightarrow> (Panic, w1)
                | Some ts \<Rightarrow>
                    (case first_of_type TreeType_LOG (Tree ts) of
                       Some t \<Rightarrow> (Return (Some t, None), w1)
                     | None \<Rightarrow>
                         (let rqst = CreateTreeRequest
                                \<lparr>TreeId = 0, TreeType = TreeType_LOG,
                                 HashStrategy = HashStrategy_RFC6962_SHA256,
                                 HashAlgorithm = DigitallySigned_SHA256,
                                 SignatureAlgorithm = DigitallySigned_ECDSA,
                                 TreeState = TreeState_ACTIVE,
                                 MaxRootDuration = Some Hour\<rparr>
                                Specification_EcdsaParams in
                          case invoke (CreateTree_rpc ctx rqst)
                                 (CreateTree adminClient ctx rqst) w1 of
                            ((t, err2), w2) \<Rightarrow>
                              (case err2 of
                                 Some e \<Rightarrow> (Return (None, Some e), w2)
                               | None \<Rightarrow>
                                   (case invoke (InitLog_rpc ctx t)
                                          (InitLog ext ctx t logClient) w2 of
                                      (Some e, w3) \<Rightarrow> (Return (None, Some e), w3)
                                    | (None, w3) \<Rightarrow> (Return (t, None), w3))))))))"

definition createAndInitMap ::
  "('e, 'w, 'm) extern \<Rightarrow> Context \<Rightarrow> ('e, 'w) TrillianAdminClient \<Rightarrow> 'm \<Rightarrow> 'w world
     \<Rightarrow> (Tree option \<times> 'e option) outcome \<times> 'w world" where
  "createAndInitMap ext ctx adminClient mapClient w =
     (case invoke (ListTrees_rpc ctx) (ListTrees adminClient ctx) w of
        ((trees, err), w1) \<Rightarrow>
          (case err of
             Some e \<Rightarrow> (Return (None, Some e), w1)
           | None \<Rightarrow>
               (case trees of
                  None \<Rightarrow> (Panic, w1)
                | Some ts \<Rightarrow>
                    (case first_of_type TreeType_MAP (Tree ts) of
                       Some t \<Rightarrow> (Return (Some t, None), w1)
                     | None \<Rightarrow>
                         (let rqst = CreateTreeRequest
                                \<lparr>TreeId = 0, TreeType = TreeType_MAP,
                                 HashStrategy = HashStrategy_CONIKS_SHA256,
                                 HashAlgorithm = DigitallySigned_SHA256,
                                 SignatureAlgorithm = DigitallySigned_ECDSA,
                                 TreeState = TreeState_ACTIVE,
                                 MaxRootDuration = Some Hour\<rparr>
                                Specification_EcdsaParams in
                          case invoke (CreateTree_rpc ctx rqst)
                                 (CreateTree adminClient ctx rqst) w1 of
                            ((t, err2), w2) \<Rightarrow>
                              (case err2 of
                                 Some e \<Rightarrow> (Return (None, Some e), w2)
                               | None \<Rightarrow>
                                   (case invoke (InitMap_rpc ctx t)
                                          (InitMap ext ctx t mapClient) w2 of
                                      (Some e, w3) \<Rightarrow> (Return (None, Some e), w3)
                                    | (None, w3) \<Rightarrow> (Return (t, None), w3))))))))"

section \<open>Example services\<close>

text \<open>
  Small stand-ins for the libraries and the service, used to run the client on concrete
  inputs. The toy hasher prefixes a zero byte; the toy verifier accepts a proof when the
  root hash is the leaf hash followed by the audit-path hashes; the toy decoder reads
  the tree size from the first byte and the root hash from the rest.
\<close>

definition demo_extern :: "(string, 'w, unit) extern" where
  "demo_extern =
     \<lparr>HashLeaf = (\<lambda>b. 0 # b),
      VerifyInclusionProof =
        (\<lambda>i n hs r lh. if r = concat (lh # hs) then None else Some ''calculated root mismatch''),
      UnmarshalBinary =
        (\<lambda>b. case b of
               [] \<Rightarrow> Inl ''log root too short''
             | n # h \<Rightarrow> Inr \<lparr>TreeSize = ucast n, RootHash = h, TimestampNanos = 0,
                              Revision = 0, Metadata = []\<rparr>),
      status_Code = (\<lambda>e. case e of None \<Rightarrow> codes_OK | Some m \<Rightarrow> codes_Unavailable),
      InitLog = (\<lambda>ctx t c sv. (None, sv)),
      InitMap = (\<lambda>ctx t c sv. (None, sv))\<rparr>"

text \<open>A log client that gives the same four answers in every service state.\<close>

definition stub_client ::
  "GetLatestSignedLogRootResponse option \<times> 'e option
     \<Rightarrow> GetInclusionProofByHashResponse option \<times> 'e option
     \<Rightarrow> QueueLeafResponse option \<times> 'e option
     \<Rightarrow> GetLeavesByHashResponse option \<times> 'e option
     \<Rightarrow> ('e, 'w) TrillianLogClient" where
  "stub_client a b c d =
     \<lparr>GetLatestSignedLogRoot = (\<lambda>ctx rq sv. (a, sv)),
      GetInclusionProofByHash = (\<lambda>ctx rq sv. (b, sv)),
      QueueLeaf = (\<lambda>ctx rq sv. (c, sv)),
      GetLeavesByHash = (\<lambda>ctx rq sv. (d, sv))\<rparr>"

definition unavailable :: "'a option \<times> string option" where
  "unavailable = (None, Some ''rpc error: code = Unavailable'')"

text \<open>The payload \<open>hi\<close>, and a signed root of size 1 whose root hash is its leaf hash.\<close>

definition demo_payload :: bytes where
  "demo_payload = [104, 105]"

definition demo_root :: "GetLatestSignedLogRootResponse option \<times> string option" where
  "demo_root = (Some \<lparr>SignedLogRoot = Some \<lparr>LogRoot = [1, 0, 104, 105]\<rparr>\<rparr>, None)"

definition demo_rt :: LogRootV1 where
  "demo_rt = \<lparr>TreeSize = 1, RootHash = [0, 104, 105], TimestampNanos = 0,
              Revision = 0, Metadata = []\<rparr>"

definition world0 :: "unit world" where
  "world0 = \<lparr>service = (), issued = []\<rparr>"

text \<open>
  Two answers to the proof request: one proof with an empty audit path, which the toy
  verifier accepts, and the same followed by a proof whose audit path holds a stray
  hash, which it rejects. \<open>demo_log\<close> is a client of log 1 over a service that serves
  \<open>demo_root\<close>, answers the proof request as given and is unavailable for the rest.
\<close>

definition verified_proofs :: GetInclusionProofByHashResponse where
  "verified_proofs = \<lparr>Proof = [\<lparr>LeafIndex = 0, Hashes = []\<rparr>]\<rparr>"

definition corrupted_proofs :: GetInclusionProofByHashResponse where
  "corrupted_proofs =
     \<lparr>Proof = [\<lparr>LeafIndex = 0, Hashes = []\<rparr>, \<lparr>LeafIndex = 0, Hashes = [[7]]\<rparr>]\<rparr>"

definition demo_log ::
  "GetInclusionProofByHashResponse option \<times> string option \<Rightarrow> (string, unit) trillianclient" where
  "demo_log b = serverInstance (stub_client demo_root b unavailable unavailable) 1"

text \<open>
  An admin service whose state is its list of trees: listing reads the state, creating
  appends the requested tree under the next free identifier.
\<close>

definition demo_admin :: "(string, Tree list) TrillianAdminClient" where
  "demo_admin =
     \<lparr>ListTrees = (\<lambda>ctx sv. ((Some \<lparr>Tree = sv\<rparr>, None), sv)),
      CreateTree =
        (\<lambda>ctx rq sv. case rq of
           CreateTreeRequest t k \<Rightarrow>
             (let t' = t\<lparr>TreeId := of_nat (length sv) + 1\<rparr>
              in ((Some t', None), sv @ [t'])))\<rparr>"

definition demo_tree :: "int64 \<Rightarrow> TreeType \<Rightarrow> Tree" where
  "demo_tree i k =
     \<lparr>TreeId = i, TreeType = k, HashStrategy = HashStrategy_RFC6962_SHA256,
      HashAlgorithm = DigitallySigned_SHA256, SignatureAlgorithm = DigitallySigned_ECDSA,
      TreeState = TreeState_ACTIVE, MaxRootDuration = Some Hour\<rparr>"

text \<open>
  A service state with one map tree followed by two log trees, and a log client for
  that service that is unavailable throughout.
\<close>

definition demo_trees :: "Tree list" where
  "demo_trees = [demo_tree 5 TreeType_MAP, demo_tree 7 TreeType_LOG, demo_tree 9 TreeType_LOG]"

definition admin_world :: "Tree list world" where
  "admin_world = \<lparr>service = demo_trees, issued = []\<rparr>"

definition down_client :: "(string, Tree list) TrillianLogClient" where
  "down_client = stub_client unavailable unavailable unavailable unavailable"

text \<open>
  A configuration in which only \<open>rekor_server.enforce_text_only\<close> is set, and a toy
  sniffer that calls the empty payload a PNG image and every other payload plain text.
\<close>

definition enforcing_config :: "string \<Rightarrow> bool" where
  "enforcing_config k = (k = ''rekor_server.enforce_text_only'')"

definition demo_sniffer :: "bytes \<Rightarrow> string" where
  "demo_sniffer b = (if b = [] then ''image/png'' else ''text/plain; charset=utf-8'')"

section \<open>Properties of the admission policy\<close>

text \<open>\<open>Contains\<close> is the substring relation.\<close>

lemma Contains_sublist: "Contains s substr = sublist substr s"
  by (induction s) (auto simp: sublist_Cons_right)

text \<open>
  Claim C8. When the configuration flag \<open>rekor_server.enforce_text_only\<close> is false,
  \<open>IsFileTypeAllowed\<close> returns \<open>(true, nil)\<close> for every payload, the empty one included,
  whatever content type is detected.
\<close>

theorem IsFileTypeAllowed_not_enforced:
  "\<not> GetBool ''rekor_server.enforce_text_only''
     \<Longrightarrow> IsFileTypeAllowed DetectContentType GetBool byteLeaf = (True, None)"
  by (simp add: IsFileTypeAllowed_def)

theorem IsFileTypeAllowed_not_enforced_witness:
  "\<not> (\<lambda>k. False) ''rekor_server.enforce_text_only''
     \<and> IsFileTypeAllowed (\<lambda>b. ''image/png'') (\<lambda>k. False) []
         = (True, None :: string option)"
proof -
  have h: "\<not> (\<lambda>k::string. False) ''rekor_server.enforce_text_only''"
    by simp
  show ?thesis
    using h IsFileTypeAllowed_not_enforced [OF h, of "\<lambda>b. ''image/png''" "[]"]
    by simp
qed

text \<open>
  Claim C9. When the flag is true, \<open>IsFileTypeAllowed\<close> returns \<open>allowed = true\<close> exactly
  when \<open>text/plain\<close> is a substring of the detected content type, and \<open>allowed = false\<close>
  otherwise; the error is nil in both cases.
\<close>

theorem IsFileTypeAllowed_enforced:
  "GetBool ''rekor_server.enforce_text_only''
     \<Longrightarrow> IsFileTypeAllowed DetectContentType GetBool byteLeaf
         = (sublist ''text/plain'' (DetectContentType byteLeaf), None)"
  by (simp add: IsFileTypeAllowed_def Contains_sublist)

theorem IsFileTypeAllowed_enforced_witness:
  "enforcing_config ''rekor_server.enforce_text_only''
     \<and> IsFileTypeAllowed demo_sniffer enforcing_config demo_payload
         = (True, None :: string option)
     \<and> IsFileTypeAllowed demo_sniffer enforcing_config []
         = (False, None :: string option)"
proof -
  have h: "enforcing_config ''rekor_server.enforce_text_only''"
    by (simp add: enforcing_config_def)
  have yes: "sublist ''text/plain'' (demo_sniffer demo_payload)"
    by (simp add: Contains_sublist [symmetric] demo_sniffer_def demo_payload_def)
  have no: "\<not> sublist ''text/plain'' (demo_sniffer [])"
    by (simp add: Contains_sublist [symmetric] demo_sniffer_def)
  show ?thesis
    using h yes no
      IsFileTypeAllowed_enforced [of enforcing_config demo_sniffer demo_payload]
      IsFileTypeAllowed_enforced [of enforcing_config demo_sniffer "[]"]
    by simp
qed

section \<open>Running the example services\<close>

lemma demo_root_ok:
  "root demo_extern (serverInstance (stub_client demo_root b c d) l) world0 =
     (Return (demo_rt, None),
      \<lparr>service = (), issued = [GetLatestSignedLogRoot_rpc Background
                                  (GetLatestSignedLogRootRequest l)]\<rparr>)"
  by (simp add: root_def invoke_def serverInstance_def stub_client_def demo_root_def
      demo_extern_def demo_rt_def world0_def)

lemma demo_log_root:
  "root demo_extern (demo_log b) world0 =
     (Return (demo_rt, None),
      \<lparr>service = (), issued = [GetLatestSignedLogRoot_rpc Background
                                  (GetLatestSignedLogRootRequest 1)]\<rparr>)"
  by (simp add: demo_log_def demo_root_ok)

lemma demo_log_proof_rpc:
  "GetInclusionProofByHash (client (demo_log b)) ctx rq sv = (b, sv)"
  by (simp add: demo_log_def serverInstance_def stub_client_def)

lemma demo_log_unavailable:
  "GetInclusionProofByHash (client (demo_log unavailable)) ctx rq sv =
     ((None, Some ''rpc error: code = Unavailable''), sv)"
  by (simp add: demo_log_proof_rpc unavailable_def)

lemma demo_log_logID: "logID (demo_log b) = 1"
  by (simp add: demo_log_def serverInstance_def)

lemma demo_HashLeaf: "HashLeaf demo_extern demo_payload = [0, 104, 105]"
  by (simp add: demo_extern_def demo_payload_def)

lemma demo_status_Code:
  "status_Code demo_extern None = codes_OK"
  "status_Code demo_extern (Some m) = codes_Unavailable"
  by (simp_all add: demo_extern_def)

lemma demo_rt_TreeSize: "TreeSize demo_rt = 1"
  by (simp add: demo_rt_def)

lemma world0_fields: "service world0 = ()" "issued world0 = []"
  by (simp_all add: world0_def)

lemma demo_log_queue:
  "QueueLeaf (client (demo_log b)) ctx rq sv = (unavailable, sv)"
  by (simp add: demo_log_def serverInstance_def stub_client_def)

lemma demo_log_leaves:
  "GetLeavesByHash (client (demo_log b)) ctx rq sv = (unavailable, sv)"
  by (simp add: demo_log_def serverInstance_def stub_client_def)

section \<open>Properties of the inclusion proof verifier\<close>

lemma verify_proofs_None_iff:
  "verify_proofs ext rt leafHash ps = None \<longleftrightarrow>
     (\<forall>p \<in> set ps. VerifyInclusionProof ext (LeafIndex p) (TreeSize rt) (Hashes p)
                       (RootHash rt) leafHash = None)"
  by (induction ps) (auto simp: GetHashes_def split: option.splits)

lemma verify_proofs_Some:
  "verify_proofs ext rt leafHash ps = Some e \<Longrightarrow>
     \<exists>p \<in> set ps. VerifyInclusionProof ext (LeafIndex p) (TreeSize rt) (Hashes p)
                       (RootHash rt) leafHash = Some e"
  by (induction ps) (auto simp: GetHashes_def split: option.splits)

lemma getProof_after_root:
  assumes "root ext s w = (Return (rt, None), w1)"
      and "GetInclusionProofByHash (client s) (WithTimeout Background (20 * Second))
             (GetInclusionProofByHashRequest tLogID (HashLeaf ext byteValue) (TreeSize rt))
             (service w1) = ((resp, err), sv)"
  shows "getProof ext s byteValue tLogID w =
           (case (case resp of None \<Rightarrow> None
                  | Some r \<Rightarrow> verify_proofs ext rt (HashLeaf ext byteValue) (Proof r)) of
              Some e \<Rightarrow> Return (Response_zero, Some e)
            | None \<Rightarrow> Return (\<lparr>status = status_Code ext err, getLeafResult = None,
                                getProofResult = resp\<rparr>, None),
            w1\<lparr>service := sv,
               issued := issued w1 @
                 [GetInclusionProofByHash_rpc (WithTimeout Background (20 * Second))
                    (GetInclusionProofByHashRequest tLogID (HashLeaf ext byteValue)
                       (TreeSize rt))]\<rparr>)"
  using assms by (simp add: getProof_def invoke_def Let_def split: option.splits)

text \<open>
  Claim C1. Take a \<open>getProof\<close> call whose root fetch succeeded and whose proof request
  was answered with a response. If some returned proof fails \<open>VerifyInclusionProof\<close>
  against the leaf hash, the proof's leaf index and audit path, and the tree size and
  root hash of the root fetched in this call, then \<open>getProof\<close> returns the empty
  \<open>Response\<close> together with an error, and that error is the verification error of one
  of the returned proofs: never a success.
\<close>

theorem getProof_rejects_failed_proof:
  assumes "root ext s w = (Return (rt, None), w1)"
      and "GetInclusionProofByHash (client s) (WithTimeout Background (20 * Second))
             (GetInclusionProofByHashRequest tLogID (HashLeaf ext byteValue) (TreeSize rt))
             (service w1) = ((Some resp, err), sv)"
      and "\<exists>p \<in> set (Proof resp).
             VerifyInclusionProof ext (LeafIndex p) (TreeSize rt) (Hashes p) (RootHash rt)
               (HashLeaf ext byteValue) \<noteq> None"
  shows "\<exists>p \<in> set (Proof resp). \<exists>e.
           VerifyInclusionProof ext (LeafIndex p) (TreeSize rt) (Hashes p) (RootHash rt)
             (HashLeaf ext byteValue) = Some e
           \<and> fst (getProof ext s byteValue tLogID w) = Return (Response_zero, Some e)"
proof -
  from assms(3) have "verify_proofs ext rt (HashLeaf ext byteValue) (Proof resp) \<noteq> None"
    by (simp add: verify_proofs_None_iff)
  then obtain e where e: "verify_proofs ext rt (HashLeaf ext byteValue) (Proof resp) = Some e"
    by blast
  from verify_proofs_Some [OF e] obtain p where
    "p \<in> set (Proof resp)"
    "VerifyInclusionProof ext (LeafIndex p) (TreeSize rt) (Hashes p) (RootHash rt)
       (HashLeaf ext byteValue) = Some e"
    by blast
  moreover have "fst (getProof ext s byteValue tLogID w) = Return (Response_zero, Some e)"
    by (simp add: getProof_after_root [OF assms(1,2)] e)
  ultimately show ?thesis by blast
qed

text \<open>
  Claim C2. Take a \<open>getProof\<close> call whose root fetch succeeded. If the answer to the
  proof request holds no proof (the response is absent, or its proof list is empty),
  \<open>getProof\<close> returns a nil error and a \<open>Response\<close> that carries the answer as it
  came, with the status code of the request's error.
\<close>

theorem getProof_no_proofs:
  assumes "root ext s w = (Return (rt, None), w1)"
      and "GetInclusionProofByHash (client s) (WithTimeout Background (20 * Second))
             (GetInclusionProofByHashRequest tLogID (HashLeaf ext byteValue) (TreeSize rt))
             (service w1) = ((resp, err), sv)"
      and "(case resp of None \<Rightarrow> [] | Some r \<Rightarrow> Proof r) = []"
  shows "fst (getProof ext s byteValue tLogID w) =
           Return (\<lparr>status = status_Code ext err, getLeafResult = None,
                    getProofResult = resp\<rparr>, None)"
  using assms(3) by (simp add: getProof_after_root [OF assms(1,2)] split: option.splits)

theorem getProof_rejects_failed_proof_witness:
  "(\<exists>p \<in> set (Proof corrupted_proofs).
      VerifyInclusionProof (demo_extern :: (string, unit, unit) extern) (LeafIndex p)
        (TreeSize demo_rt) (Hashes p) (RootHash demo_rt)
        (HashLeaf (demo_extern :: (string, unit, unit) extern) demo_payload) \<noteq> None)
   \<and> fst (getProof (demo_extern :: (string, unit, unit) extern)
              (demo_log (Some corrupted_proofs, None)) demo_payload 1 world0)
       = Return (Response_zero, Some ''calculated root mismatch'')"
proof -
  let ?ext = "demo_extern :: (string, unit, unit) extern"
  have bad: "\<exists>p \<in> set (Proof corrupted_proofs).
      VerifyInclusionProof ?ext (LeafIndex p) (TreeSize demo_rt) (Hashes p) (RootHash demo_rt)
        (HashLeaf ?ext demo_payload) \<noteq> None"
    by (simp add: corrupted_proofs_def demo_extern_def demo_rt_def demo_payload_def)
  have only: "e = ''calculated root mismatch''"
    if "VerifyInclusionProof ?ext i n hs r lh = Some e" for i n hs r lh e
    using that by (simp add: demo_extern_def split: if_splits)
  from getProof_rejects_failed_proof [OF demo_log_root demo_log_proof_rpc bad, where tLogID = 1]
  obtain e where
    "fst (getProof ?ext (demo_log (Some corrupted_proofs, None)) demo_payload 1 world0)
       = Return (Response_zero, Some e)"
    "e = ''calculated root mismatch''"
    using only by blast
  with bad show ?thesis by simp
qed

theorem getProof_no_proofs_witness:
  "(case Some \<lparr>Proof = []\<rparr> of None \<Rightarrow> [] | Some r \<Rightarrow> Proof r) = []
   \<and> fst (getProof (demo_extern :: (string, unit, unit) extern)
              (demo_log (Some \<lparr>Proof = []\<rparr>, None)) demo_payload 1 world0)
       = Return (\<lparr>status = codes_OK, getLeafResult = None,
                  getProofResult = Some \<lparr>Proof = []\<rparr>\<rparr>, None)"
proof -
  have h: "(case Some \<lparr>Proof = []\<rparr> of None \<Rightarrow> [] | Some r \<Rightarrow> Proof r) = []"
    by simp
  have st: "status_Code (demo_extern :: (string, unit, unit) extern) None = codes_OK"
    by (simp add: demo_extern_def)
  show ?thesis
    using h getProof_no_proofs [OF demo_log_root
        demo_log_proof_rpc [of "(Some \<lparr>Proof = []\<rparr>, None)"] h,
        where tLogID = 1 and byteValue = demo_payload]
    by (simp add: st)
qed

lemma root_issued:
  "issued (snd (root ext s w)) =
     issued w @ [GetLatestSignedLogRoot_rpc Background (GetLatestSignedLogRootRequest (logID s))]"
  by (simp add: root_def invoke_def Let_def split: prod.splits option.splits sum.splits)

text \<open>
  Claim C3, as amended. In every \<open>getProof\<close> call the root fetch is issued first, with
  the background context, which carries no deadline; only the proof request, issued
  when the root fetch returned a root, carries the deadline of 20 seconds. No other
  call is issued, and the local verification takes no context.
\<close>

theorem getProof_deadline_scope:
  "issued (snd (getProof ext s byteValue tLogID w)) =
     issued w @
     GetLatestSignedLogRoot_rpc Background (GetLatestSignedLogRootRequest (logID s)) #
     (case fst (root ext s w) of
        Return (rt, None) \<Rightarrow>
          [GetInclusionProofByHash_rpc (WithTimeout Background (20 * Second))
             (GetInclusionProofByHashRequest tLogID (HashLeaf ext byteValue) (TreeSize rt))]
      | _ \<Rightarrow> [])"
proof (cases "root ext s w")
  case (Pair r w1)
  have w1: "issued w1 =
      issued w @ [GetLatestSignedLogRoot_rpc Background (GetLatestSignedLogRootRequest (logID s))]"
    using root_issued [of ext s w] Pair by simp
  show ?thesis
  proof (cases r)
    case (Return v)
    obtain rt err where v: "v = (rt, err)" by (cases v)
    show ?thesis
    proof (cases err)
      case None
      obtain resp e sv where rpc:
        "GetInclusionProofByHash (client s) (WithTimeout Background (20 * Second))
           (GetInclusionProofByHashRequest tLogID (HashLeaf ext byteValue) (TreeSize rt))
           (service w1) = ((resp, e), sv)"
        by (metis surj_pair)
      from Pair Return v None have "root ext s w = (Return (rt, None), w1)" by simp
      from getProof_after_root [OF this rpc] Pair Return v None w1
      show ?thesis by simp
    next
      case (Some e)
      with Pair Return v w1 show ?thesis by (simp add: getProof_def)
    qed
  next
    case Panic
    with Pair w1 show ?thesis by (simp add: getProof_def)
  next
    case Exit
    with Pair w1 show ?thesis by (simp add: getProof_def)
  qed
qed

theorem getProof_deadline_scope_witness:
  "issued (snd (getProof demo_extern (demo_log (Some verified_proofs, None))
                  demo_payload 1 world0)) =
     [GetLatestSignedLogRoot_rpc Background (GetLatestSignedLogRootRequest 1),
      GetInclusionProofByHash_rpc (WithTimeout Background 20000000000)
        (GetInclusionProofByHashRequest 1 [0, 104, 105] 1)]"
  using getProof_deadline_scope [of demo_extern "demo_log (Some verified_proofs, None)"
      demo_payload 1 world0]
  by (simp add: demo_log_root demo_log_logID demo_HashLeaf demo_rt_TreeSize world0_fields
      Second_def)

text \<open>
  Claim C3 as stated fails: in a call that fetches the root and one proof, the first of
  the two calls issued carries no deadline.
\<close>

theorem getProof_deadline_counterexample:
  "map (has_deadline \<circ> rpc_context)
     (issued (snd (getProof (demo_extern :: (string, unit, unit) extern)
                     (demo_log (Some verified_proofs, None)) demo_payload 1 world0)))
   = [False, True]"
  by (simp add: getProof_after_root [OF demo_log_root demo_log_proof_rpc])

text \<open>
  Claim C4, as amended. Take a \<open>getProof\<close> call whose root fetch succeeded. If the
  proof request fails with an error and no response, the request is issued once and
  \<open>getProof\<close> returns a nil error with a \<open>Response\<close> whose status is the status code of
  that error and whose proof result is nil.
\<close>

theorem getProof_transport_error_in_status:
  assumes "root ext s w = (Return (rt, None), w1)"
      and "GetInclusionProofByHash (client s) (WithTimeout Background (20 * Second))
             (GetInclusionProofByHashRequest tLogID (HashLeaf ext byteValue) (TreeSize rt))
             (service w1) = ((None, Some e), sv)"
  shows "getProof ext s byteValue tLogID w =
           (Return (\<lparr>status = status_Code ext (Some e), getLeafResult = None,
                     getProofResult = None\<rparr>, None),
            w1\<lparr>service := sv,
               issued := issued w1 @
                 [GetInclusionProofByHash_rpc (WithTimeout Background (20 * Second))
                    (GetInclusionProofByHashRequest tLogID (HashLeaf ext byteValue)
                       (TreeSize rt))]\<rparr>)"
  by (simp add: getProof_after_root [OF assms])

theorem getProof_transport_error_in_status_witness:
  "getProof demo_extern (demo_log unavailable) demo_payload 1 world0 =
     (Return (\<lparr>status = codes_Unavailable, getLeafResult = None, getProofResult = None\<rparr>,
              None),
      \<lparr>service = (),
       issued = [GetLatestSignedLogRoot_rpc Background (GetLatestSignedLogRootRequest 1),
                 GetInclusionProofByHash_rpc (WithTimeout Background 20000000000)
                   (GetInclusionProofByHashRequest 1 [0, 104, 105] 1)]\<rparr>)"
  using getProof_transport_error_in_status [OF demo_log_root demo_log_unavailable,
      where tLogID = 1 and byteValue = demo_payload]
  by (simp add: demo_HashLeaf demo_rt_TreeSize demo_status_Code Second_def)

text \<open>
  Claim C4 as stated fails: when the service is unavailable for the proof request, the
  error component of the result is nil.
\<close>

theorem getProof_transport_error_counterexample:
  "fst (getProof demo_extern (demo_log unavailable) demo_payload 1 world0) =
     Return (\<lparr>status = codes_Unavailable, getLeafResult = None, getProofResult = None\<rparr>,
             None)"
  by (simp add: getProof_after_root [OF demo_log_root demo_log_unavailable] demo_status_Code)

section \<open>Properties of leaf ingestion and lookup\<close>

lemma addLeaf_cases:
  assumes "QueueLeaf (client s) Background (QueueLeafRequest tLogID (LogLeaf byteValue))
             (service w) = ((resp, err), sv)"
  shows "addLeaf s byteValue tLogID w =
           (case resp of
              None \<Rightarrow> Panic
            | Some r \<Rightarrow> Return (\<lparr>status = GetCode (GetStatus (QueuedLeaf r)),
                                  getLeafResult = None, getProofResult = None\<rparr>, None),
            w\<lparr>service := sv,
              issued := issued w @
                [QueueLeaf_rpc Background (QueueLeafRequest tLogID (LogLeaf byteValue))]\<rparr>)"
  using assms by (simp add: addLeaf_def invoke_def Let_def split: option.splits)

text \<open>
  When the queueing request is answered with a response, \<open>addLeaf\<close> returns the status
  code of the queued leaf; for a duplicate that is \<open>AlreadyExists\<close>, with a nil error.
\<close>

lemma addLeaf_duplicate:
  assumes "QueueLeaf (client s) Background (QueueLeafRequest tLogID (LogLeaf byteValue))
             (service w) = ((Some r, err), sv)"
      and "QueuedLeaf r = Some q"
      and "Status q = Some st"
      and "Code st = codes_AlreadyExists"
  shows "fst (addLeaf s byteValue tLogID w) =
           Return (\<lparr>status = codes_AlreadyExists, getLeafResult = None,
                    getProofResult = None\<rparr>, None)"
  using assms(2-4) by (simp add: addLeaf_cases [OF assms(1)] GetStatus_def GetCode_def)

text \<open>
  Claim C5. The claim asks that \<open>addLeaf\<close> return a transport error of the queueing
  request to its caller. The code does not: whatever the service answers, and for every
  payload, \<open>addLeaf\<close> never returns with a non-nil error.
\<close>

theorem addLeaf_never_returns_error:
  "fst (addLeaf s byteValue tLogID w) \<noteq> Return (r, Some e)"
proof -
  obtain resp err sv where
    "QueueLeaf (client s) Background (QueueLeafRequest tLogID (LogLeaf byteValue))
       (service w) = ((resp, err), sv)"
    by (metis surj_pair)
  from addLeaf_cases [OF this] show ?thesis
    by (simp split: option.splits)
qed

text \<open>
  Claim C10. The claim asks that \<open>addLeaf\<close> return a \<open>Response\<close> without panicking
  also when the queueing request fails with a nil response. The code panics there: with
  the service unavailable, the read of \<open>resp.QueuedLeaf\<close> goes through a nil pointer.
\<close>

theorem addLeaf_panics_on_failed_rpc:
  "QueueLeaf (client (demo_log unavailable)) Background
     (QueueLeafRequest 1 (LogLeaf demo_payload)) (service world0)
     = ((None, Some ''rpc error: code = Unavailable''), ())
   \<and> fst (addLeaf (demo_log unavailable) demo_payload 1 world0) = Panic"
proof -
  have q: "QueueLeaf (client (demo_log unavailable)) Background
     (QueueLeafRequest 1 (LogLeaf demo_payload)) (service world0)
     = ((None, Some ''rpc error: code = Unavailable''), ())"
    by (simp add: demo_log_queue unavailable_def)
  from addLeaf_cases [OF q] q show ?thesis by simp
qed

lemma getLeaf_cases:
  assumes "GetLeavesByHash (client s) Background
             (GetLeavesByHashRequest tlog_id [HashLeaf ext byteValue]) (service w)
             = ((resp, err), sv)"
  shows "getLeaf ext s byteValue tlog_id w =
           (case err of
              Some e \<Rightarrow> Exit
            | None \<Rightarrow> Return (\<lparr>status = status_Code ext None, getLeafResult = resp,
                                getProofResult = None\<rparr>, None),
            w\<lparr>service := sv,
              issued := issued w @
                [GetLeavesByHash_rpc Background
                   (GetLeavesByHashRequest tlog_id [HashLeaf ext byteValue])]\<rparr>)"
  using assms by (simp add: getLeaf_def Logger_Fatal_def invoke_def Let_def split: option.splits)

text \<open>
  Claim C6. The claim asks that \<open>getLeaf\<close> return a failed lookup to its caller and
  never terminate the process. The code terminates it: with the service unavailable,
  \<open>getLeaf\<close> ends in \<open>Exit\<close>.
\<close>

theorem getLeaf_exits_on_failed_rpc:
  "GetLeavesByHash (client (demo_log unavailable)) Background
     (GetLeavesByHashRequest 1 [HashLeaf demo_extern demo_payload]) (service world0)
     = ((None, Some ''rpc error: code = Unavailable''), ())
   \<and> fst (getLeaf demo_extern (demo_log unavailable) demo_payload 1 world0) = Exit"
proof -
  have q: "GetLeavesByHash (client (demo_log unavailable)) Background
     (GetLeavesByHashRequest 1 [HashLeaf demo_extern demo_payload]) (service world0)
     = ((None, Some ''rpc error: code = Unavailable''), ())"
    by (simp add: demo_log_leaves unavailable_def)
  from getLeaf_cases [OF q] q show ?thesis by simp
qed

section \<open>Properties of the tree provisioner\<close>

lemma first_of_type_split:
  "first_of_type k ts = Some t \<longleftrightarrow>
     (\<exists>pre post. ts = pre @ t # post \<and> TreeType t = k \<and> (\<forall>u \<in> set pre. TreeType u \<noteq> k))"
proof (induction ts)
  case Nil
  then show ?case by simp
next
  case (Cons a ts)
  show ?case
  proof (cases "TreeType a = k")
    case True
    have "(\<exists>pre post. a # ts = pre @ t # post \<and> TreeType t = k
             \<and> (\<forall>u \<in> set pre. TreeType u \<noteq> k)) \<longleftrightarrow> a = t"
    proof
      assume "\<exists>pre post. a # ts = pre @ t # post \<and> TreeType t = k
             \<and> (\<forall>u \<in> set pre. TreeType u \<noteq> k)"
      then obtain pre post where *: "a # ts = pre @ t # post" "\<forall>u \<in> set pre. TreeType u \<noteq> k"
        by blast
      with True show "a = t" by (cases pre) auto
    next
      assume "a = t"
      with True have "a # ts = [] @ t # ts \<and> TreeType t = k \<and> (\<forall>u \<in> set []. TreeType u \<noteq> k)"
        by simp
      then show "\<exists>pre post. a # ts = pre @ t # post \<and> TreeType t = k
             \<and> (\<forall>u \<in> set pre. TreeType u \<noteq> k)" by blast
    qed
    with True show ?thesis by simp
  next
    case False
    have "(\<exists>pre post. a # ts = pre @ t # post \<and> TreeType t = k
             \<and> (\<forall>u \<in> set pre. TreeType u \<noteq> k)) \<longleftrightarrow>
          (\<exists>pre post. ts = pre @ t # post \<and> TreeType t = k
             \<and> (\<forall>u \<in> set pre. TreeType u \<noteq> k))"
    proof
      assume "\<exists>pre post. a # ts = pre @ t # post \<and> TreeType t = k
             \<and> (\<forall>u \<in> set pre. TreeType u \<noteq> k)"
      then obtain pre post where *: "a # ts = pre @ t # post" "TreeType t = k"
          "\<forall>u \<in> set pre. TreeType u \<noteq> k"
        by blast
      with False obtain pre' where "pre = a # pre'" by (cases pre) auto
      with * have "ts = pre' @ t # post \<and> TreeType t = k \<and> (\<forall>u \<in> set pre'. TreeType u \<noteq> k)"
        by simp
      then show "\<exists>pre post. ts = pre @ t # post \<and> TreeType t = k
             \<and> (\<forall>u \<in> set pre. TreeType u \<noteq> k)" by blast
    next
      assume "\<exists>pre post. ts = pre @ t # post \<and> TreeType t = k
             \<and> (\<forall>u \<in> set pre. TreeType u \<noteq> k)"
      then obtain pre post where *: "ts = pre @ t # post" "TreeType t = k"
          "\<forall>u \<in> set pre. TreeType u \<noteq> k"
        by blast
      with False have "a # ts = (a # pre) @ t # post \<and> TreeType t = k
          \<and> (\<forall>u \<in> set (a # pre). TreeType u \<noteq> k)"
        by simp
      then show "\<exists>pre post. a # ts = pre @ t # post \<and> TreeType t = k
             \<and> (\<forall>u \<in> set pre. TreeType u \<noteq> k)" by blast
    qed
    with False Cons.IH show ?thesis by simp
  qed
qed

lemma createAndInitTree_found:
  assumes "ListTrees adminClient ctx (service w) = ((Some ts, None), sv)"
      and "first_of_type TreeType_LOG (Tree ts) = Some t"
  shows "createAndInitTree ext ctx adminClient logClient w =
           (Return (Some t, None), w\<lparr>service := sv, issued := issued w @ [ListTrees_rpc ctx]\<rparr>)"
  using assms by (simp add: createAndInitTree_def invoke_def)

lemma createAndInitMap_found:
  assumes "ListTrees adminClient ctx (service w) = ((Some ts, None), sv)"
      and "first_of_type TreeType_MAP (Tree ts) = Some t"
  shows "createAndInitMap ext ctx adminClient mapClient w =
           (Return (Some t, None), w\<lparr>service := sv, issued := issued w @ [ListTrees_rpc ctx]\<rparr>)"
  using assms by (simp add: createAndInitMap_def invoke_def)

text \<open>
  Claim C7. Let the listing succeed and let \<open>t\<close> be the first listed tree of its type.
  If that type is \<open>LOG\<close>, \<open>createAndInitTree\<close> returns \<open>t\<close> unchanged with a nil error
  and issues the listing request only: no create request, no initialisation. If the
  listing leaves the service state as it was, a second call that follows the first
  returns the same tree, again after a listing request only. The same holds for
  \<open>createAndInitMap\<close> and the type \<open>MAP\<close>.
\<close>

theorem provision_reuses_first_tree:
  assumes list: "ListTrees adminClient ctx (service w) = ((Some ts, None), sv)"
      and first: "Tree ts = pre @ t # post" "\<forall>u \<in> set pre. TreeType u \<noteq> TreeType t"
  shows "(TreeType t = TreeType_LOG \<longrightarrow>
            createAndInitTree ext ctx adminClient logClient w =
              (Return (Some t, None),
               w\<lparr>service := sv, issued := issued w @ [ListTrees_rpc ctx]\<rparr>)
            \<and> (sv = service w \<longrightarrow>
                 createAndInitTree ext ctx adminClient logClient
                   (snd (createAndInitTree ext ctx adminClient logClient w)) =
                 (Return (Some t, None),
                  w\<lparr>issued := issued w @ [ListTrees_rpc ctx, ListTrees_rpc ctx]\<rparr>)))
       \<and> (TreeType t = TreeType_MAP \<longrightarrow>
            createAndInitMap ext ctx adminClient mapClient w =
              (Return (Some t, None),
               w\<lparr>service := sv, issued := issued w @ [ListTrees_rpc ctx]\<rparr>)
            \<and> (sv = service w \<longrightarrow>
                 createAndInitMap ext ctx adminClient mapClient
                   (snd (createAndInitMap ext ctx adminClient mapClient w)) =
                 (Return (Some t, None),
                  w\<lparr>issued := issued w @ [ListTrees_rpc ctx, ListTrees_rpc ctx]\<rparr>)))"
proof -
  have f: "first_of_type (TreeType t) (Tree ts) = Some t"
    using first by (auto simp: first_of_type_split)
  let ?w1 = "w\<lparr>service := sv, issued := issued w @ [ListTrees_rpc ctx]\<rparr>"
  have list1: "ListTrees adminClient ctx (service ?w1) = ((Some ts, None), sv)"
    if "sv = service w"
    using list that by simp
  have log: "createAndInitTree ext ctx adminClient logClient w = (Return (Some t, None), ?w1)
      \<and> (sv = service w \<longrightarrow>
           createAndInitTree ext ctx adminClient logClient ?w1 =
             (Return (Some t, None),
              w\<lparr>issued := issued w @ [ListTrees_rpc ctx, ListTrees_rpc ctx]\<rparr>))"
    if k: "TreeType t = TreeType_LOG"
  proof -
    from f k have g: "first_of_type TreeType_LOG (Tree ts) = Some t"
      by simp
    have "createAndInitTree ext ctx adminClient logClient ?w1 =
        (Return (Some t, None),
         w\<lparr>issued := issued w @ [ListTrees_rpc ctx, ListTrees_rpc ctx]\<rparr>)"
      if same: "sv = service w"
      using createAndInitTree_found [OF list1 [OF same] g,
          where ext = ext and logClient = logClient] same
      by simp
    with createAndInitTree_found [OF list g, where ext = ext and logClient = logClient]
    show ?thesis by simp
  qed
  have mp: "createAndInitMap ext ctx adminClient mapClient w = (Return (Some t, None), ?w1)
      \<and> (sv = service w \<longrightarrow>
           createAndInitMap ext ctx adminClient mapClient ?w1 =
             (Return (Some t, None),
              w\<lparr>issued := issued w @ [ListTrees_rpc ctx, ListTrees_rpc ctx]\<rparr>))"
    if k: "TreeType t = TreeType_MAP"
  proof -
    from f k have g: "first_of_type TreeType_MAP (Tree ts) = Some t"
      by simp
    have "createAndInitMap ext ctx adminClient mapClient ?w1 =
        (Return (Some t, None),
         w\<lparr>issued := issued w @ [ListTrees_rpc ctx, ListTrees_rpc ctx]\<rparr>)"
      if same: "sv = service w"
      using createAndInitMap_found [OF list1 [OF same] g,
          where ext = ext and mapClient = mapClient] same
      by simp
    with createAndInitMap_found [OF list g, where ext = ext and mapClient = mapClient]
    show ?thesis by simp
  qed
  from log mp show ?thesis by simp
qed

lemma demo_admin_list:
  "ListTrees demo_admin ctx (service admin_world) = ((Some \<lparr>Tree = demo_trees\<rparr>, None), demo_trees)"
  by (simp add: demo_admin_def admin_world_def)

theorem provision_reuses_first_tree_witness:
  "createAndInitTree demo_extern Background demo_admin down_client admin_world =
     (Return (Some (demo_tree 7 TreeType_LOG), None),
      \<lparr>service = demo_trees, issued = [ListTrees_rpc Background]\<rparr>)
   \<and> createAndInitTree demo_extern Background demo_admin down_client
       (snd (createAndInitTree demo_extern Background demo_admin down_client admin_world)) =
     (Return (Some (demo_tree 7 TreeType_LOG), None),
      \<lparr>service = demo_trees, issued = [ListTrees_rpc Background, ListTrees_rpc Background]\<rparr>)
   \<and> createAndInitMap demo_extern Background demo_admin () admin_world =
     (Return (Some (demo_tree 5 TreeType_MAP), None),
      \<lparr>service = demo_trees, issued = [ListTrees_rpc Background]\<rparr>)
   \<and> createAndInitMap demo_extern Background demo_admin ()
       (snd (createAndInitMap demo_extern Background demo_admin () admin_world)) =
     (Return (Some (demo_tree 5 TreeType_MAP), None),
      \<lparr>service = demo_trees, issued = [ListTrees_rpc Background, ListTrees_rpc Background]\<rparr>)"
proof -
  have sv: "demo_trees = service admin_world"
    by (simp add: admin_world_def)
  have w: "admin_world\<lparr>service := demo_trees, issued := issued admin_world @ cs\<rparr> =
      \<lparr>service = demo_trees, issued = cs\<rparr>"
      "admin_world\<lparr>issued := issued admin_world @ cs\<rparr> = \<lparr>service = demo_trees, issued = cs\<rparr>"
    for cs
    by (simp_all add: admin_world_def)
  have log_split: "Tree \<lparr>Tree = demo_trees\<rparr> =
      [demo_tree 5 TreeType_MAP] @ demo_tree 7 TreeType_LOG # [demo_tree 9 TreeType_LOG]"
    by (simp add: demo_trees_def)
  have log_first: "\<forall>u \<in> set [demo_tree 5 TreeType_MAP].
      TreeType u \<noteq> TreeType (demo_tree 7 TreeType_LOG)"
    by (simp add: demo_tree_def)
  have map_split: "Tree \<lparr>Tree = demo_trees\<rparr> =
      [] @ demo_tree 5 TreeType_MAP # [demo_tree 7 TreeType_LOG, demo_tree 9 TreeType_LOG]"
    by (simp add: demo_trees_def)
  have map_first: "\<forall>u \<in> set []. TreeType u \<noteq> TreeType (demo_tree 5 TreeType_MAP)"
    by simp
  have kinds: "TreeType (demo_tree 7 TreeType_LOG) = TreeType_LOG"
      "TreeType (demo_tree 5 TreeType_MAP) = TreeType_MAP"
    by (simp_all add: demo_tree_def)
  show ?thesis
    using provision_reuses_first_tree [OF demo_admin_list log_split log_first,
        where ext = demo_extern and logClient = down_client and mapClient = "()"
          and ctx = Background]
      provision_reuses_first_tree [OF demo_admin_list map_split map_first,
        where ext = demo_extern and logClient = down_client and mapClient = "()"
          and ctx = Background]
      sv kinds
    by (auto simp add: w)
qed

end
